theory Spec2Isabelle
  imports Main "HOL-Library.AList" "HOL-Library.Sublist"
begin

section \<open>Credential issuance and verification of the chatbot backend\<close>

text \<open>
  The development embeds the authentication core of the backend:
  \<^verbatim>\<open>app/core/security.py\<close>, \<^verbatim>\<open>app/services/user_service.py\<close>,
  \<^verbatim>\<open>app/api/endpoints/auth.py\<close> and \<^verbatim>\<open>app/schemas/user.py\<close>.
  Every Python function is a HOL function of the same name. An exception is a value
  \<open>Inl e\<close> of the result type \<open>exn + 'a\<close>; the database session is the list of rows of
  the \<open>users\<close> table, passed in and returned; the clock, the UUID generator and the salt
  generator are inputs of the call that reads them.

  The backend calls three libraries whose code is not part of it: passlib (bcrypt),
  python-jose (JWT) and pydantic (\<open>EmailStr\<close>). Their cryptographic and parsing
  primitives are parameters (record \<open>extern\<close>); around them, their control flow is
  written out: which inputs they reject, in which order, and with which exception.
\<close>

subsection \<open>Values, exceptions, settings\<close>

text \<open>
  JSON values of token claims (numbers are integers; a JSON payload with a fractional
  number is outside the model) and a claims dictionary.
\<close>

datatype json =
    JNull
  | JBool bool
  | JNum int
  | JStr string
  | JArr "json list"
  | JObj "(string \<times> json) list"

type_synonym claims = "(string \<times> json) list"

text \<open>
  The subclasses of python-jose's \<open>JWTError\<close> (\<open>ExpiredSignatureError\<close>,
  \<open>JWTClaimsError\<close>, and the \<open>JWSError\<close>s that \<open>jwt.decode\<close> re-raises as
  \<open>JWTError\<close>): \<open>except JWTError\<close> catches each of them.
\<close>

datatype jwt_error = Malformed | AlgorithmNotAllowed | InvalidSignature | InvalidClaims | Expired

datatype exn =
    HTTPException nat string "(string \<times> string) list"
  | JWTError jwt_error
  | UnknownHashError
  | MalformedHashError
  | PasswordSizeError
  | PasswordValueError
  | MultipleResultsFound
  | IntegrityError
  | ValidationError
  | TypeError

text \<open>\<^verbatim>\<open>app/core/config.py\<close>: the settings the core reads, with their defaults.\<close>

record settings =
  SECRET_KEY :: string
  ALGORITHM :: string
  ACCESS_TOKEN_EXPIRE_MINUTES :: int

definition default_settings :: settings where
  "default_settings =
     \<lparr>SECRET_KEY = ''your-super-secret-jwt-key-here-change-in-production'',
      ALGORITHM = ''HS256'',
      ACCESS_TOKEN_EXPIRE_MINUTES = 30\<rparr>"

text \<open>
  The primitives of the libraries, as parameters:
  \<^item> \<open>bcrypt_digest ident rounds salt secret\<close>: the bcrypt checksum;
  \<^item> \<open>max_password_size\<close>: passlib's limit on the length of a secret (4096 unless
    the environment sets another);
  \<^item> \<open>hmac_sign key alg payload\<close>: the JWS signature;
  \<^item> \<open>int_of_str\<close>: Python's \<open>int()\<close> on a string (\<open>None\<close> for \<open>ValueError\<close>);
  \<^item> \<open>validate_email\<close>: the validation behind pydantic's \<open>EmailStr\<close>. It
    returns the address in normalised form (\<open>parts.normalized\<close>: among other things
    the domain in lower case), or \<open>None\<close> when the string is no email address;
  \<^item> \<open>is_active_default\<close>: the column default of \<open>users.is_active\<close>.
\<close>

record extern =
  bcrypt_digest :: "string \<Rightarrow> nat \<Rightarrow> string \<Rightarrow> string \<Rightarrow> string"
  max_password_size :: nat
  hmac_sign :: "string \<Rightarrow> string \<Rightarrow> claims \<Rightarrow> string"
  int_of_str :: "string \<Rightarrow> int option"
  validate_email :: "string \<Rightarrow> string option"
  is_active_default :: bool

text \<open>
  What a call reads from its environment: \<open>datetime.utcnow()\<close> in microseconds since
  the epoch, \<open>str(uuid.uuid4())\<close>, and the salt passlib draws for a new hash.
\<close>

record env =
  utcnow :: int
  uuid4 :: string
  gensalt :: string

subsection \<open>passlib: \<open>CryptContext(schemes=["bcrypt"])\<close>\<close>

text \<open>
  A bcrypt hash string is \<open>ident rounds $ salt checksum\<close>: one of the identifiers
  below, two decimal digits, 22 salt characters and 31 checksum characters of the bcrypt
  base-64 alphabet. \<open>CryptContext.verify\<close> proceeds in this order:
  \<^enum> it identifies the scheme by the prefix of the hash string and raises
    \<open>UnknownHashError\<close> when no scheme matches;
  \<^enum> the handler's \<open>verify\<close> checks the size of the secret (\<open>PasswordSizeError\<close>);
  \<^enum> it parses the hash string and raises a \<open>ValueError\<close> (here
    \<open>MalformedHashError\<close>) when it is not of the form above; the last character of
    the salt has four unused bits and the last character of the checksum two, and the
    parser clears them (with a warning only);
  \<^enum> the digest is computed with the salt of the hash string, which refuses a secret
    with a NUL byte (\<open>PasswordValueError\<close>);
  \<^enum> the digest is compared with the checksum of the hash string.
\<close>

definition bcrypt64 :: string where
  "bcrypt64 = ''./ABCDEFGHIJKLMNOPQRSTUVWXYZabcdefghijklmnopqrstuvwxyz0123456789''"

definition ident_values :: "string list" where
  "ident_values = [''$2$'', ''$2a$'', ''$2x$'', ''$2y$'', ''$2b$'']"

definition identify :: "string \<Rightarrow> bool" where
  "identify h = list_ex (\<lambda>i. prefix i h) ident_values"

fun parse_ident :: "string list \<Rightarrow> string \<Rightarrow> (string \<times> string) option" where
  "parse_ident [] h = None"
| "parse_ident (i # idents) h =
     (if prefix i h then Some (i, drop (length i) h) else parse_ident idents h)"

text \<open>Python's \<open>s.split(c)\<close>.\<close>

fun split_on :: "char \<Rightarrow> string \<Rightarrow> string list" where
  "split_on c [] = [[]]"
| "split_on c (x # xs) =
     (if x = c then [] # split_on c xs
      else (case split_on c xs of [] \<Rightarrow> [[x]] | w # ws \<Rightarrow> (x # w) # ws))"

definition digit_val :: "char \<Rightarrow> nat option" where
  "digit_val c = (if c \<in> set ''0123456789'' then Some (of_char c - 48) else None)"

text \<open>
  \<open>rounds = int(rounds_str)\<close> followed by the check \<open>rounds_str == '%02d' % rounds\<close>
  and the range check \<open>4 \<le> rounds \<le> 31\<close>: together they accept exactly the two-digit
  strings \<open>04\<close> to \<open>31\<close>.
\<close>

definition parse_rounds :: "string \<Rightarrow> nat option" where
  "parse_rounds s =
     (case s of
        [a, b] \<Rightarrow>
          (case (digit_val a, digit_val b) of
             (Some x, Some y) \<Rightarrow> Some (10 * x + y)
           | _ \<Rightarrow> None)
      | _ \<Rightarrow> None)"

definition bcrypt_chars :: "string \<Rightarrow> bool" where
  "bcrypt_chars s = list_all (\<lambda>c. c \<in> set bcrypt64) s"

text \<open>
  The value of an alphabet character is its position in \<open>bcrypt64\<close>.
  \<open>repair_unused m s\<close> clears the unused low bits of the last character of \<open>s\<close>:
  its value \<open>v\<close> becomes \<open>v - v mod m\<close>, with \<open>m = 16\<close> for a salt (four unused
  bits) and \<open>m = 4\<close> for a checksum (two).
\<close>

definition char_value :: "char \<Rightarrow> nat" where
  "char_value c = length (takeWhile (\<lambda>x. x \<noteq> c) bcrypt64)"

definition repair_unused :: "nat \<Rightarrow> string \<Rightarrow> string" where
  "repair_unused m s =
     (case rev s of
        [] \<Rightarrow> []
      | c # front \<Rightarrow> rev front @ [bcrypt64 ! (char_value c - char_value c mod m)])"

definition from_string :: "string \<Rightarrow> exn + (string \<times> nat \<times> string \<times> string)" where
  "from_string h =
     (case parse_ident ident_values h of
        None \<Rightarrow> Inl MalformedHashError
      | Some (ident, tail) \<Rightarrow>
          if ident = ''$2x$'' then Inl MalformedHashError
          else
            (case split_on CHR ''$'' tail of
               [rounds_str, data] \<Rightarrow>
                 (case parse_rounds rounds_str of
                    None \<Rightarrow> Inl MalformedHashError
                  | Some rounds \<Rightarrow>
                      (let salt = take 22 data; chk = drop 22 data in
                       if 4 \<le> rounds \<and> rounds \<le> 31 \<and>
                          length salt = 22 \<and> bcrypt_chars salt \<and>
                          length chk = 31 \<and> bcrypt_chars chk
                       then Inr (ident, rounds, repair_unused 16 salt, repair_unused 4 chk)
                       else Inl MalformedHashError))
             | _ \<Rightarrow> Inl MalformedHashError))"

definition pwd_context_verify :: "extern \<Rightarrow> string \<Rightarrow> string \<Rightarrow> exn + bool" where
  "pwd_context_verify X secret h =
     (if \<not> identify h then Inl UnknownHashError
      else if max_password_size X < length secret then Inl PasswordSizeError
      else
        (case from_string h of
           Inl e \<Rightarrow> Inl e
         | Inr (ident, rounds, salt, chk) \<Rightarrow>
             if CHR 0x00 \<in> set secret then Inl PasswordValueError
             else Inr (bcrypt_digest X ident rounds salt secret = chk)))"

text \<open>
  The handler's \<open>to_string\<close>, \<open>"%s%02d$%s%s" % (ident, rounds, salt, checksum)\<close>,
  for a number of rounds below 100.
\<close>

definition to_string :: "string \<Rightarrow> nat \<Rightarrow> string \<Rightarrow> string \<Rightarrow> string" where
  "to_string ident rounds salt chk =
     ident @ [''0123456789'' ! (rounds div 10), ''0123456789'' ! (rounds mod 10)] @ ''$'' @
       salt @ chk"

text \<open>
  \<open>CryptContext.hash\<close>: the size check, then identifier \<open>2b\<close>, 12 rounds and the
  salt drawn for this call; the digest refuses a secret with a NUL byte.
\<close>

definition pwd_context_hash :: "extern \<Rightarrow> string \<Rightarrow> string \<Rightarrow> exn + string" where
  "pwd_context_hash X salt secret =
     (if max_password_size X < length secret then Inl PasswordSizeError
      else if CHR 0x00 \<in> set secret then Inl PasswordValueError
      else Inr (to_string ''$2b$'' 12 salt (bcrypt_digest X ''$2b$'' 12 salt secret)))"



subsection \<open>python-jose: \<open>jwt.encode\<close> and \<open>jwt.decode\<close>\<close>

text \<open>
  A bearer credential either parses as a compact JWS with a JSON object as payload
  (header algorithm, payload, signature) or does not. Time claims are whole seconds:
  \<open>jwt.encode\<close> turns a \<open>datetime\<close> under \<open>exp\<close> into
  \<open>timegm(exp.utctimetuple())\<close>, and \<open>jwt.decode\<close> compares with
  \<open>timegm(datetime.utcnow().utctimetuple())\<close>.

  \<open>jwt.decode(token, key, algorithms)\<close> verifies the signature and then validates the
  registered claims in the order \<open>iat\<close>, \<open>nbf\<close>, \<open>exp\<close>, \<open>aud\<close>, \<open>iss\<close>,
  \<open>sub\<close>, \<open>jti\<close>, \<open>at_hash\<close>, each only when it is present. The backend passes
  no audience, issuer, subject or access token, so an \<open>aud\<close> or \<open>at_hash\<close> claim
  is always refused and \<open>iss\<close> is not looked at. The time claims are read with
  \<open>int(...)\<close> inside \<open>try: ... except ValueError\<close>: a \<open>ValueError\<close> becomes a
  \<open>JWTClaimsError\<close>, but the \<open>TypeError\<close> of \<open>int(None)\<close>, of a list or of an
  object leaves \<open>jwt.decode\<close> as it is.
\<close>

datatype bearer = Compact string claims string | Unparsable string

definition timegm :: "int \<Rightarrow> int" where
  "timegm t = t div 1000000"

definition timedelta_minutes :: "int \<Rightarrow> int" where
  "timedelta_minutes m = m * 60000000"

definition jwt_encode :: "extern \<Rightarrow> claims \<Rightarrow> string \<Rightarrow> string \<Rightarrow> bearer" where
  "jwt_encode X cl key alg = Compact alg cl (hmac_sign X key alg cl)"

text \<open>Python's \<open>int(v)\<close> inside \<open>try: ... except ValueError: raise JWTClaimsError\<close>.\<close>

definition py_int :: "extern \<Rightarrow> json \<Rightarrow> exn + int" where
  "py_int X v =
     (case v of
        JNum n \<Rightarrow> Inr n
      | JBool b \<Rightarrow> Inr (if b then 1 else 0)
      | JStr s \<Rightarrow> (case int_of_str X s of Some n \<Rightarrow> Inr n | None \<Rightarrow> Inl (JWTError InvalidClaims))
      | JNull \<Rightarrow> Inl TypeError
      | JArr xs \<Rightarrow> Inl TypeError
      | JObj kvs \<Rightarrow> Inl TypeError)"

text \<open>Each validator returns the exception it raises, or \<open>None\<close>.\<close>

definition validate_iat :: "extern \<Rightarrow> claims \<Rightarrow> exn option" where
  "validate_iat X cl =
     (case map_of cl ''iat'' of
        None \<Rightarrow> None
      | Some v \<Rightarrow> (case py_int X v of Inl e \<Rightarrow> Some e | Inr iat \<Rightarrow> None))"

definition validate_nbf :: "extern \<Rightarrow> claims \<Rightarrow> int \<Rightarrow> exn option" where
  "validate_nbf X cl now =
     (case map_of cl ''nbf'' of
        None \<Rightarrow> None
      | Some v \<Rightarrow>
          (case py_int X v of
             Inl e \<Rightarrow> Some e
           | Inr nbf \<Rightarrow> if timegm now < nbf then Some (JWTError InvalidClaims) else None))"

definition validate_exp :: "extern \<Rightarrow> claims \<Rightarrow> int \<Rightarrow> exn option" where
  "validate_exp X cl now =
     (case map_of cl ''exp'' of
        None \<Rightarrow> None
      | Some v \<Rightarrow>
          (case py_int X v of
             Inl e \<Rightarrow> Some e
           | Inr exp \<Rightarrow> if exp < timegm now then Some (JWTError Expired) else None))"

definition validate_aud :: "claims \<Rightarrow> exn option" where
  "validate_aud cl =
     (case map_of cl ''aud'' of
        None \<Rightarrow> None
      | Some v \<Rightarrow> Some (JWTError InvalidClaims))"

definition validate_sub :: "claims \<Rightarrow> exn option" where
  "validate_sub cl =
     (case map_of cl ''sub'' of
        None \<Rightarrow> None
      | Some (JStr s) \<Rightarrow> None
      | Some _ \<Rightarrow> Some (JWTError InvalidClaims))"

definition validate_jti :: "claims \<Rightarrow> exn option" where
  "validate_jti cl =
     (case map_of cl ''jti'' of
        None \<Rightarrow> None
      | Some (JStr s) \<Rightarrow> None
      | Some _ \<Rightarrow> Some (JWTError InvalidClaims))"

definition validate_at_hash :: "claims \<Rightarrow> exn option" where
  "validate_at_hash cl =
     (case map_of cl ''at_hash'' of
        None \<Rightarrow> None
      | Some v \<Rightarrow> Some (JWTError InvalidClaims))"

text \<open>The first exception of a sequence of checks.\<close>

fun first_raised :: "exn option list \<Rightarrow> exn option" where
  "first_raised [] = None"
| "first_raised (None # rest) = first_raised rest"
| "first_raised (Some e # rest) = Some e"

definition validate_claims :: "extern \<Rightarrow> claims \<Rightarrow> int \<Rightarrow> exn option" where
  "validate_claims X cl now =
     first_raised
       [validate_iat X cl, validate_nbf X cl now, validate_exp X cl now, validate_aud cl,
        validate_sub cl, validate_jti cl, validate_at_hash cl]"

definition jwt_decode :: "extern \<Rightarrow> bearer \<Rightarrow> string \<Rightarrow> string list \<Rightarrow> int \<Rightarrow> exn + claims" where
  "jwt_decode X token key algorithms now =
     (case token of
        Unparsable s \<Rightarrow> Inl (JWTError Malformed)
      | Compact alg cl sig \<Rightarrow>
          if alg \<notin> set algorithms then Inl (JWTError AlgorithmNotAllowed)
          else if sig \<noteq> hmac_sign X key alg cl then Inl (JWTError InvalidSignature)
          else
            (case validate_claims X cl now of
               Some e \<Rightarrow> Inl e
             | None \<Rightarrow> Inr cl))"

subsection \<open>The \<open>users\<close> table\<close>

text \<open>
  Modelled from the spec: \<^verbatim>\<open>app/models/user.py\<close> is not among the sources. The
  columns are those of the spec's persisted state layout: \<open>id\<close> (text, primary key),
  \<open>email\<close>, \<open>hashed_password\<close>, \<open>is_guest\<close>, \<open>is_active\<close>, \<open>created_at\<close>,
  \<open>updated_at\<close>; the bookkeeping fields are set at creation. The table is the list of
  its rows. An insert fails on a primary key that is taken; uniqueness of \<open>email\<close> is
  not enforced by the table (the spec leaves it to the pre-check of \<open>register\<close>).
\<close>

record user =
  user_id :: string
  email :: string
  hashed_password :: string
  is_guest :: bool
  is_active :: bool
  created_at :: int
  updated_at :: int

text \<open>\<open>Result.scalar_one_or_none()\<close> of SQLAlchemy.\<close>

definition scalar_one_or_none :: "'a list \<Rightarrow> exn + 'a option" where
  "scalar_one_or_none rows =
     (case rows of
        [] \<Rightarrow> Inr None
      | [r] \<Rightarrow> Inr (Some r)
      | _ \<Rightarrow> Inl MultipleResultsFound)"

text \<open>\<open>select(User).where(User.email == email)\<close>: exact string match.\<close>

definition select_user_by_email :: "user list \<Rightarrow> string \<Rightarrow> user list" where
  "select_user_by_email db e = filter (\<lambda>u. email u = e) db"

text \<open>\<open>db.add(row); db.commit(); db.refresh(row)\<close>.\<close>

definition add_commit :: "user list \<Rightarrow> user \<Rightarrow> exn + user list" where
  "add_commit db row =
     (if user_id row \<in> set (map user_id db) then Inl IntegrityError
      else Inr (db @ [row]))"

subsection \<open>\<^verbatim>\<open>app/schemas/user.py\<close>\<close>

record UserCreate =
  uc_email :: string
  uc_password :: string


record UserResponse =
  r_email :: string
  r_id :: string
  r_is_guest :: bool
  r_is_active :: bool
  r_created_at :: int
  r_updated_at :: int

record Token =
  access_token :: bearer
  token_type :: string
  token_user :: "UserResponse option"

text \<open>
  \<open>UserResponse.from_orm(u)\<close> reads the six attributes of the row and validates them;
  \<open>email\<close> is an \<open>EmailStr\<close>, so the response holds the normalised form of the
  row's address.
\<close>

definition from_orm :: "extern \<Rightarrow> user \<Rightarrow> exn + UserResponse" where
  "from_orm X u =
     (case validate_email X (email u) of
        None \<Rightarrow> Inl ValidationError
      | Some e \<Rightarrow>
          Inr \<lparr>r_email = e, r_id = user_id u, r_is_guest = is_guest u,
               r_is_active = is_active u, r_created_at = created_at u,
               r_updated_at = updated_at u\<rparr>)"

subsection \<open>\<^verbatim>\<open>app/core/security.py\<close>\<close>

text \<open>
  \<open>if expires_delta:\<close> tests the truth value of an \<open>Optional[timedelta]\<close>: \<open>None\<close> is
  false, and so is \<open>timedelta(0)\<close>; both take the \<open>else\<close> branch. \<open>now\<close> is the
  reading of \<open>datetime.utcnow()\<close>, a \<open>timedelta\<close> is a number of microseconds.
\<close>

definition create_access_token :: "extern \<Rightarrow> settings \<Rightarrow> int \<Rightarrow> claims \<Rightarrow> int option \<Rightarrow> bearer" where
  "create_access_token X cfg now data expires_delta =
     (let expire =
            (case expires_delta of
               Some d \<Rightarrow>
                 if d \<noteq> 0 then now + d
                 else now + timedelta_minutes (ACCESS_TOKEN_EXPIRE_MINUTES cfg)
             | None \<Rightarrow> now + timedelta_minutes (ACCESS_TOKEN_EXPIRE_MINUTES cfg));
          to_encode = AList.update ''exp'' (JNum (timegm expire)) data
      in jwt_encode X to_encode (SECRET_KEY cfg) (ALGORITHM cfg))"

definition verify_password :: "extern \<Rightarrow> string \<Rightarrow> string \<Rightarrow> exn + bool" where
  "verify_password X plain_password hashed = pwd_context_verify X plain_password hashed"

definition get_password_hash :: "extern \<Rightarrow> string \<Rightarrow> string \<Rightarrow> exn + string" where
  "get_password_hash X salt password = pwd_context_hash X salt password"

text \<open>
  \<open>authenticate_user\<close> returns the user or \<open>False\<close> (here \<open>None\<close>). In
  \<open>not user or not verify_password(...)\<close> the password is only verified when a user
  was found.
\<close>

definition authenticate_user :: "extern \<Rightarrow> user list \<Rightarrow> string \<Rightarrow> string \<Rightarrow> exn + user option" where
  "authenticate_user X db e password =
     (case scalar_one_or_none (select_user_by_email db e) of
        Inl ex \<Rightarrow> Inl ex
      | Inr None \<Rightarrow> Inr None
      | Inr (Some u) \<Rightarrow>
          (case verify_password X password (hashed_password u) of
             Inl ex \<Rightarrow> Inl ex
           | Inr ok \<Rightarrow> if \<not> ok then Inr None else Inr (Some u)))"

definition credentials_exception :: exn where
  "credentials_exception =
     HTTPException 401 ''Could not validate credentials'' [(''WWW-Authenticate'', ''Bearer'')]"

text \<open>
  \<open>get_current_user\<close>. The \<open>raise credentials_exception\<close> inside the \<open>try\<close> is an
  \<open>HTTPException\<close> and passes the \<open>except JWTError\<close> clause; any other exception of
  \<open>jwt.decode\<close> is not caught. A \<open>sub\<close> that is neither missing nor a string never
  leaves \<open>jwt_decode\<close> (lemma \<open>jwt_decode_sub\<close> below), so the branch for it is dead;
  it is given the result of a query that matches no row.
\<close>

definition get_current_user :: "extern \<Rightarrow> settings \<Rightarrow> int \<Rightarrow> bearer \<Rightarrow> user list \<Rightarrow> exn + user" where
  "get_current_user X cfg now credentials db =
     (case jwt_decode X credentials (SECRET_KEY cfg) [ALGORITHM cfg] now of
        Inl (JWTError k) \<Rightarrow> Inl credentials_exception
      | Inl ex \<Rightarrow> Inl ex
      | Inr payload \<Rightarrow>
          (case map_of payload ''sub'' of
             None \<Rightarrow> Inl credentials_exception
           | Some JNull \<Rightarrow> Inl credentials_exception
           | Some (JStr e) \<Rightarrow>
               (case scalar_one_or_none (select_user_by_email db e) of
                  Inl ex \<Rightarrow> Inl ex
                | Inr None \<Rightarrow> Inl credentials_exception
                | Inr (Some u) \<Rightarrow> Inr u)
           | Some _ \<Rightarrow> Inl credentials_exception))"

subsection \<open>\<^verbatim>\<open>app/services/user_service.py\<close>\<close>

definition get_user_by_email :: "user list \<Rightarrow> string \<Rightarrow> exn + user option" where
  "get_user_by_email db e = scalar_one_or_none (select_user_by_email db e)"

definition create_user :: "extern \<Rightarrow> env \<Rightarrow> UserCreate \<Rightarrow> user list \<Rightarrow> (exn + user) \<times> user list" where
  "create_user X E user_data db =
     (case get_password_hash X (gensalt E) (uc_password user_data) of
        Inl ex \<Rightarrow> (Inl ex, db)
      | Inr hashed \<Rightarrow>
          (let db_user =
                 \<lparr>user_id = uuid4 E, email = uc_email user_data, hashed_password = hashed,
                  is_guest = False, is_active = is_active_default X,
                  created_at = utcnow E, updated_at = utcnow E\<rparr>
           in case add_commit db db_user of
                Inl ex \<Rightarrow> (Inl ex, db)
              | Inr db' \<Rightarrow> (Inr db_user, db')))"

subsection \<open>\<^verbatim>\<open>app/api/endpoints/auth.py\<close>\<close>

definition register :: "extern \<Rightarrow> env \<Rightarrow> UserCreate \<Rightarrow> user list \<Rightarrow> (exn + UserResponse) \<times> user list" where
  "register X E u db =
     (case get_user_by_email db (uc_email u) of
        Inl ex \<Rightarrow> (Inl ex, db)
      | Inr (Some existing_user) \<Rightarrow>
          (Inl (HTTPException 400 ''Email already registered'' []), db)
      | Inr None \<Rightarrow>
          (case create_user X E u db of
             (Inl ex, db') \<Rightarrow> (Inl ex, db')
           | (Inr db_user, db') \<Rightarrow>
               (case from_orm X db_user of
                  Inl ex \<Rightarrow> (Inl ex, db')
                | Inr r \<Rightarrow> (Inr r, db'))))"


text \<open>
  The form of \<open>OAuth2PasswordRequestForm\<close>: \<open>username\<close> carries the email, a
  plain string that no validation rewrites.
\<close>

record form_data =
  username :: string
  password :: string

definition login :: "extern \<Rightarrow> settings \<Rightarrow> int \<Rightarrow> form_data \<Rightarrow> user list \<Rightarrow> exn + Token" where
  "login X cfg now form db =
     (case authenticate_user X db (username form) (password form) of
        Inl ex \<Rightarrow> Inl ex
      | Inr None \<Rightarrow>
          Inl (HTTPException 401 ''Incorrect email or password''
                 [(''WWW-Authenticate'', ''Bearer'')])
      | Inr (Some u) \<Rightarrow>
          (let access_token_expires = timedelta_minutes (ACCESS_TOKEN_EXPIRE_MINUTES cfg);
               tok = create_access_token X cfg now [(''sub'', JStr (email u))]
                       (Some access_token_expires)
           in case from_orm X u of
                Inl ex \<Rightarrow> Inl ex
              | Inr r \<Rightarrow> Inr \<lparr>access_token = tok, token_type = ''bearer'', token_user = Some r\<rparr>))"

text \<open>A run of \<open>register\<close> calls, one after the other, on a store.\<close>

fun registers :: "extern \<Rightarrow> (env \<times> UserCreate) list \<Rightarrow> user list \<Rightarrow> user list" where
  "registers X [] db = db"
| "registers X ((E, u) # calls) db = registers X calls (snd (register X E u db))"

subsection \<open>A concrete instance of the primitives\<close>

text \<open>
  Stand-ins for the primitives, to run the definitions on concrete inputs: the digest
  keeps the first 31 alphabet characters of secret and salt, the signature is the key
  followed by the subject, and the validation of an email accepts every string with an
  \<open>@\<close> and puts what follows the first \<open>@\<close> in lower case.
\<close>

definition ascii_lower :: "char \<Rightarrow> char" where
  "ascii_lower c =
     (case map_of (zip ''ABCDEFGHIJKLMNOPQRSTUVWXYZ'' ''abcdefghijklmnopqrstuvwxyz'') c of
        None \<Rightarrow> c
      | Some l \<Rightarrow> l)"

definition sample_validate_email :: "string \<Rightarrow> string option" where
  "sample_validate_email s =
     (if CHR ''@'' \<in> set s
      then Some (takeWhile (\<lambda>c. c \<noteq> CHR ''@'') s @
                 map ascii_lower (dropWhile (\<lambda>c. c \<noteq> CHR ''@'') s))
      else None)"

definition sample_digest :: "string \<Rightarrow> nat \<Rightarrow> string \<Rightarrow> string \<Rightarrow> string" where
  "sample_digest ident rounds salt secret =
     take 31 (filter (\<lambda>c. c \<in> set bcrypt64) (secret @ salt) @ replicate 31 CHR ''.'')"

definition sample_sign :: "string \<Rightarrow> string \<Rightarrow> claims \<Rightarrow> string" where
  "sample_sign key alg cl =
     key @ (case map_of cl ''sub'' of Some (JStr s) \<Rightarrow> s | _ \<Rightarrow> [])"

definition sample_extern :: extern where
  "sample_extern =
     \<lparr>bcrypt_digest = sample_digest,
      max_password_size = 4096,
      hmac_sign = sample_sign,
      int_of_str = (\<lambda>s. None),
      validate_email = sample_validate_email,
      is_active_default = True\<rparr>"

definition sample_env :: env where
  "sample_env =
     \<lparr>utcnow = 1700000000000000,
      uuid4 = ''6f1c2a9e-0b7d-4c55-9d3e-2a4b8c6d7e10'',
      gensalt = ''abcdefghijklmnopqrstue''\<rparr>"

definition alice :: UserCreate where
  "alice = \<lparr>uc_email = ''alice@example.com'', uc_password = ''secret123''\<rparr>"

text \<open>The row that \<open>register sample_extern sample_env alice []\<close> stores.\<close>

definition alice_row :: user where
  "alice_row =
     \<lparr>user_id = ''6f1c2a9e-0b7d-4c55-9d3e-2a4b8c6d7e10'',
      email = ''alice@example.com'',
      hashed_password = ''$2b$12$abcdefghijklmnopqrstuesecret123abcdefghijklmnopqrstue'',
      is_guest = False, is_active = True,
      created_at = 1700000000000000, updated_at = 1700000000000000\<rparr>"

text \<open>The claims of a token for \<open>alice\<close> that expires at second 1700001801.\<close>

definition alice_claims :: claims where
  "alice_claims = [(''sub'', JStr ''alice@example.com''), (''exp'', JNum 1700001801)]"

text \<open>
  What \<open>register\<close> answers to \<open>alice\<close>, and what \<open>login\<close> answers to her at
  microsecond 1700000001000000 under the default settings.
\<close>

definition alice_view :: UserResponse where
  "alice_view =
     \<lparr>r_email = ''alice@example.com'', r_id = ''6f1c2a9e-0b7d-4c55-9d3e-2a4b8c6d7e10'',
      r_is_guest = False, r_is_active = True, r_created_at = 1700000000000000,
      r_updated_at = 1700000000000000\<rparr>"

definition alice_login :: Token where
  "alice_login =
     \<lparr>access_token =
        Compact ''HS256'' alice_claims
          ''your-super-secret-jwt-key-here-change-in-productionalice@example.com'',
      token_type = ''bearer'',
      token_user = Some alice_view\<rparr>"

definition alice_form :: form_data where
  "alice_form = \<lparr>username = ''alice@example.com'', password = ''secret123''\<rparr>"

section \<open>Properties\<close>

subsection \<open>Hash strings\<close>










lemma parse_ident_identify: "parse_ident ids h = Some r \<Longrightarrow> list_ex (\<lambda>i. prefix i h) ids"
  by (induction ids) (auto split: if_splits)

lemma from_string_identify: "from_string h = Inr r \<Longrightarrow> identify h"
proof -
  assume a: "from_string h = Inr r"
  then obtain q where "parse_ident ident_values h = Some q"
    by (cases "parse_ident ident_values h") (simp_all add: from_string_def)
  then show ?thesis
    unfolding identify_def by (rule parse_ident_identify)
qed

lemma from_string_Inl: "from_string h = Inl e \<Longrightarrow> e = MalformedHashError"
  by (auto simp: from_string_def Let_def
      split: option.splits prod.splits if_splits list.splits)



lemma sample_size_ok: "length ''secret123'' \<le> max_password_size sample_extern"
  by (simp add: sample_extern_def)

lemma sample_no_nul: "CHR 0x00 \<notin> set ''secret123''"
  by simp

lemma sample_from_string:
  "from_string ''$2b$12$abcdefghijklmnopqrstugsecret123abcdefghijklmnopqrstuf'' =
     Inr (''$2b$'', 12, ''abcdefghijklmnopqrstue'', ''secret123abcdefghijklmnopqrstue'')"
  by code_simp

lemma sample_digest_secret123:
  "bcrypt_digest sample_extern ''$2b$'' 12 ''abcdefghijklmnopqrstue'' ''secret123'' =
     ''secret123abcdefghijklmnopqrstue''"
  by code_simp



lemma verify_password_iff:
  "verify_password X p h = Inr b \<longleftrightarrow>
     length p \<le> max_password_size X \<and> CHR 0x00 \<notin> set p \<and>
     (\<exists>i r s c. from_string h = Inr (i, r, s, c) \<and> b = (bcrypt_digest X i r s p = c))"
proof (cases "from_string h")
  case (Inl e)
  then show ?thesis
    by (simp add: verify_password_def pwd_context_verify_def)
next
  case (Inr q)
  then have "identify h" by (rule from_string_identify)
  with Inr show ?thesis
    by (cases q) (auto simp: verify_password_def pwd_context_verify_def)
qed

text \<open>
  Claim C6, as stated: for every plaintext and every string \<open>hash_string\<close>, also one
  that is no hash output, \<open>verify_password\<close> returns a boolean and never raises.
  It fails on the string \<open>hashed\<close> (the \<open>hashed_password\<close> of the user that
  \<^verbatim>\<open>tests/test_api.py\<close> builds): no scheme of the context identifies it, the context
  raises \<open>UnknownHashError\<close>, and \<open>verify_password\<close> has no handler.
\<close>

theorem verify_password_unknown_hash:
  "verify_password sample_extern ''secret123'' ''hashed'' = Inl UnknownHashError"
  by (simp add: verify_password_def pwd_context_verify_def identify_def ident_values_def)

text \<open>
  Claim C6, amended: \<open>verify_password\<close> returns a boolean \<open>b\<close> exactly when the
  plaintext is within the size limit and has no NUL byte and the hash string parses as
  a bcrypt hash string; \<open>b\<close> then tells whether the digest computed with the salt of
  the hash string equals its checksum (salt and checksum with their unused bits
  cleared). It never returns \<open>False\<close> for a string that is no bcrypt hash string: on a
  hash string that starts with no bcrypt identifier it raises \<open>UnknownHashError\<close>, and
  on one that starts with an identifier but does not parse it raises the parser's
  \<open>ValueError\<close>, for a plaintext within the size limit.
\<close>

theorem verify_password_returns_iff:
  "(verify_password X p h = Inr b \<longleftrightarrow>
      length p \<le> max_password_size X \<and> CHR 0x00 \<notin> set p \<and>
      (\<exists>i r s c. from_string h = Inr (i, r, s, c) \<and> b = (bcrypt_digest X i r s p = c))) \<and>
   (\<not> identify h \<longrightarrow> verify_password X p h = Inl UnknownHashError) \<and>
   (identify h \<and> length p \<le> max_password_size X \<and> (\<forall>q. from_string h \<noteq> Inr q) \<longrightarrow>
      verify_password X p h = Inl MalformedHashError)"
proof (intro conjI impI)
  show "verify_password X p h = Inr b \<longleftrightarrow>
      length p \<le> max_password_size X \<and> CHR 0x00 \<notin> set p \<and>
      (\<exists>i r s c. from_string h = Inr (i, r, s, c) \<and> b = (bcrypt_digest X i r s p = c))"
    by (rule verify_password_iff)
next
  assume "\<not> identify h"
  then show "verify_password X p h = Inl UnknownHashError"
    by (simp add: verify_password_def pwd_context_verify_def)
next
  assume a: "identify h \<and> length p \<le> max_password_size X \<and> (\<forall>q. from_string h \<noteq> Inr q)"
  then obtain e where e: "from_string h = Inl e"
    by (cases "from_string h") auto
  then have "e = MalformedHashError" by (rule from_string_Inl)
  with a e show "verify_password X p h = Inl MalformedHashError"
    by (simp add: verify_password_def pwd_context_verify_def)
qed

theorem verify_password_returns_iff_witness:
  "verify_password sample_extern ''secret123''
     ''$2b$12$abcdefghijklmnopqrstugsecret123abcdefghijklmnopqrstuf'' = Inr True \<and>
   verify_password sample_extern ''secret123'' ''$2b$12$short'' = Inl MalformedHashError"
proof (rule conjI)
  show "verify_password sample_extern ''secret123''
     ''$2b$12$abcdefghijklmnopqrstugsecret123abcdefghijklmnopqrstuf'' = Inr True"
    using sample_size_ok sample_no_nul sample_from_string sample_digest_secret123
    by (simp add: verify_password_returns_iff [THEN conjunct1])
  have i: "identify ''$2b$12$short''"
    by (simp add: identify_def ident_values_def)
  have f: "\<forall>q. from_string ''$2b$12$short'' \<noteq> Inr q"
    by (simp add: from_string_def ident_values_def parse_rounds_def digit_val_def)
  from i sample_size_ok f
  show "verify_password sample_extern ''secret123'' ''$2b$12$short'' = Inl MalformedHashError"
    by (intro verify_password_returns_iff [THEN conjunct2, THEN conjunct2, THEN mp]) simp
qed




subsection \<open>The store\<close>

lemma select_none: "e \<notin> email ` set db \<Longrightarrow> select_user_by_email db e = []"
  by (auto simp: select_user_by_email_def filter_empty_conv)

lemma select_none_iff: "select_user_by_email db e = [] \<longleftrightarrow> e \<notin> email ` set db"
  by (auto simp: select_user_by_email_def filter_empty_conv)

lemma select_unique:
  "distinct (map email db) \<Longrightarrow> u \<in> set db \<Longrightarrow> select_user_by_email db (email u) = [u]"
proof (induction db)
  case Nil
  then show ?case by simp
next
  case (Cons a db)
  show ?case
  proof (cases "u = a")
    case True
    with Cons.prems have "email a \<notin> email ` set db" by simp
    then have "select_user_by_email db (email a) = []" by (rule select_none)
    with True show ?thesis by (simp add: select_user_by_email_def)
  next
    case False
    with Cons.prems have "u \<in> set db" and "distinct (map email db)" by simp_all
    with Cons.IH have "select_user_by_email db (email u) = [u]" by simp
    moreover from \<open>u \<in> set db\<close> Cons.prems(1) have "email a \<noteq> email u" by auto
    ultimately show ?thesis by (simp add: select_user_by_email_def)
  qed
qed

lemma register_store:
  "snd (register X E u db) = db \<or>
   (select_user_by_email db (uc_email u) = [] \<and>
    (\<exists>row. email row = uc_email u \<and> snd (register X E u db) = db @ [row]))"
  by (auto simp: register_def get_user_by_email_def scalar_one_or_none_def create_user_def
      add_commit_def Let_def split: list.splits sum.splits option.splits prod.splits if_splits)

lemma register_distinct:
  assumes "distinct (map email db)"
  shows "distinct (map email (snd (register X E u db)))"
  using register_store [of X E u db] assms
  by (auto simp: select_none_iff)

lemma registers_distinct:
  "distinct (map email db) \<Longrightarrow> distinct (map email (registers X calls db))"
proof (induction calls arbitrary: db)
  case Nil
  then show ?case by simp
next
  case (Cons c calls)
  obtain E u where c: "c = (E, u)" by (cases c)
  from Cons.prems have "distinct (map email (snd (register X E u db)))"
    by (rule register_distinct)
  then have "distinct (map email (registers X calls (snd (register X E u db))))"
    by (rule Cons.IH)
  with c show ?case by simp
qed

text \<open>
  Claim C8: in every store reached from the empty store by a run of \<open>register\<close>
  calls, whatever their inputs and outcomes, no two rows share an email. The table
  itself does not enforce it; the lookup that precedes the insert does
  (\<open>register_store\<close>: a call either leaves the store as it is, or appends one row
  whose email no row had).
\<close>

theorem registers_email_unique: "distinct (map email (registers X calls []))"
  by (rule registers_distinct) simp

text \<open>
  Claim C3: on a store whose emails are unique (the invariant of claim C8) and that
  holds a row with the email of the request, \<open>register\<close> raises the HTTP 400
  \<open>Email already registered\<close> and returns the store unchanged.
\<close>

theorem register_duplicate_email:
  assumes "distinct (map email db)" and "uc_email u \<in> email ` set db"
  shows "register X E u db = (Inl (HTTPException 400 ''Email already registered'' []), db)"
proof -
  from assms(2) obtain x where x: "x \<in> set db" "email x = uc_email u" by auto
  with assms(1) have "select_user_by_email db (uc_email u) = [x]"
    using select_unique [of db x] by simp
  then show ?thesis
    by (simp add: register_def get_user_by_email_def scalar_one_or_none_def)
qed

lemma sample_registers:
  "registers sample_extern [(sample_env, alice), (sample_env, alice)] [] = [alice_row]"
  by code_simp

theorem registers_email_unique_witness:
  "registers sample_extern [(sample_env, alice), (sample_env, alice)] [] = [alice_row] \<and>
   distinct (map email (registers sample_extern [(sample_env, alice), (sample_env, alice)] []))"
  by (rule conjI, rule sample_registers, rule registers_email_unique)

theorem register_duplicate_email_witness:
  "register sample_extern sample_env alice [alice_row] =
     (Inl (HTTPException 400 ''Email already registered'' []), [alice_row])"
  by (rule register_duplicate_email) (simp_all add: alice_def alice_row_def)






subsection \<open>Tokens\<close>

lemma timegm_add: "timegm (t + k * 1000000) = timegm t + k"
  by (simp add: timegm_def)

lemma first_raised_None: "first_raised xs = None \<Longrightarrow> x \<in> set xs \<Longrightarrow> x = None"
  by (induction xs rule: first_raised.induct) auto

lemma jwt_decode_encode:
  "jwt_decode X (jwt_encode X cl key alg) key [alg] now =
     (case validate_claims X cl now of Some e \<Rightarrow> Inl e | None \<Rightarrow> Inr cl)"
  by (simp add: jwt_decode_def jwt_encode_def)

lemma jwt_decode_Inr:
  "jwt_decode X tok key algs now = Inr cl \<Longrightarrow> validate_claims X cl now = None"
  by (auto simp: jwt_decode_def split: bearer.splits if_splits option.splits)

lemma jwt_decode_sub:
  assumes "jwt_decode X tok key algs now = Inr cl"
  shows "map_of cl ''sub'' = None \<or> (\<exists>e. map_of cl ''sub'' = Some (JStr e))"
proof -
  have "validate_claims X cl now = None"
    using assms by (rule jwt_decode_Inr)
  then have "validate_sub cl = None"
    unfolding validate_claims_def by (rule first_raised_None) simp
  then show ?thesis
    by (auto simp: validate_sub_def split: option.splits json.splits)
qed






lemma validate_claims_sub_exp:
  "validate_claims X [(''sub'', JStr e), (''exp'', JNum n)] now =
     (if n < timegm now then Some (JWTError Expired) else None)"
  by (simp add: validate_claims_def validate_iat_def validate_nbf_def validate_exp_def
      validate_aud_def validate_sub_def validate_jti_def validate_at_hash_def py_int_def)

text \<open>
  A non-zero \<open>expires_delta\<close> replaces the default lifetime: the token expires at
  the second of \<open>now + expires_delta\<close>.
\<close>

lemma create_access_token_nonzero_delta:
  "d \<noteq> 0 \<Longrightarrow>
     create_access_token X cfg t [(''sub'', JStr e)] (Some d) =
       jwt_encode X [(''sub'', JStr e), (''exp'', JNum (timegm (t + d)))]
         (SECRET_KEY cfg) (ALGORITHM cfg)"
  by (simp add: create_access_token_def)

text \<open>
  Claim C2 says that a token issued with \<open>expires_delta = 0\<close> expires at the moment of
  issue and that a given \<open>expires_delta\<close> always replaces the default. The code does
  otherwise at \<open>timedelta(0)\<close>: it is false in \<open>if expires_delta:\<close>, so the token gets
  the default lifetime, as if no \<open>expires_delta\<close> had been given. With the default
  settings it expires 1800 seconds after issue, and \<open>jwt_decode\<close> one second after
  issue accepts it.
\<close>

theorem create_access_token_zero_delta:
  "create_access_token X default_settings t [(''sub'', JStr e)] (Some 0) =
     create_access_token X default_settings t [(''sub'', JStr e)] None \<and>
   jwt_decode X (create_access_token X default_settings t [(''sub'', JStr e)] (Some 0))
     (SECRET_KEY default_settings) [ALGORITHM default_settings] (t + 1000000) =
     Inr [(''sub'', JStr e), (''exp'', JNum (timegm t + 1800))]"
proof -
  have e: "timegm (t + 1800000000) = timegm t + 1800"
    using timegm_add [of t 1800] by simp
  have n: "timegm (t + 1000000) = timegm t + 1"
    using timegm_add [of t 1] by simp
  have c: "create_access_token X default_settings t [(''sub'', JStr e)] (Some 0) =
        jwt_encode X [(''sub'', JStr e), (''exp'', JNum (timegm t + 1800))]
          (SECRET_KEY default_settings) (ALGORITHM default_settings)"
    by (simp add: create_access_token_def default_settings_def timedelta_minutes_def e)
  have d: "create_access_token X default_settings t [(''sub'', JStr e)] None =
        jwt_encode X [(''sub'', JStr e), (''exp'', JNum (timegm t + 1800))]
          (SECRET_KEY default_settings) (ALGORITHM default_settings)"
    by (simp add: create_access_token_def default_settings_def timedelta_minutes_def e)
  have v: "validate_claims X [(''sub'', JStr e), (''exp'', JNum (timegm t + 1800))]
      (t + 1000000) = None"
    by (simp add: validate_claims_sub_exp n)
  show ?thesis
    by (simp only: c d jwt_decode_encode v option.case simp_thms)
qed



text \<open>A token with \<open>null\<close> under \<open>sub\<close> is never accepted by the decoder.\<close>

lemma jwt_decode_null_sub:
  "map_of cl ''sub'' = Some JNull \<Longrightarrow> jwt_decode X tok key algs now \<noteq> Inr cl"
  using jwt_decode_sub [of X tok key algs now cl] by auto

text \<open>
  Claim C10: a token that \<open>jwt_decode\<close> accepts under the server secret, but whose
  payload has no \<open>sub\<close> (or \<open>null\<close> under it), ends in \<open>credentials_exception\<close>,
  the response an unparsable credential gets: \<open>payload.get("sub")\<close> is \<open>None\<close> and
  \<open>if email is None\<close> raises. (A payload with \<open>null\<close> under \<open>sub\<close> is in fact never
  accepted by the decoder, lemma \<open>jwt_decode_sub\<close>.)
\<close>

theorem get_current_user_no_sub:
  assumes "jwt_decode X tok (SECRET_KEY cfg) [ALGORITHM cfg] now = Inr cl"
    and "map_of cl ''sub'' = None \<or> map_of cl ''sub'' = Some JNull"
  shows "get_current_user X cfg now tok db = Inl credentials_exception \<and>
         get_current_user X cfg now (Unparsable s) db = Inl credentials_exception"
proof -
  have u: "get_current_user X cfg now (Unparsable s) db = Inl credentials_exception"
    by (simp add: get_current_user_def jwt_decode_def)
  from assms(2) have "get_current_user X cfg now tok db = Inl credentials_exception"
  proof
    assume "map_of cl ''sub'' = None"
    then show ?thesis
      using assms(1) by (simp add: get_current_user_def)
  next
    assume "map_of cl ''sub'' = Some JNull"
    then show ?thesis
      using assms(1) by (simp add: get_current_user_def)
  qed
  with u show ?thesis by simp
qed


lemma sample_decode_no_sub:
  "jwt_decode sample_extern
     (jwt_encode sample_extern [(''exp'', JNum 1700001801)] (SECRET_KEY default_settings)
        (ALGORITHM default_settings))
     (SECRET_KEY default_settings) [ALGORITHM default_settings] 1700000001000000 =
     Inr [(''exp'', JNum 1700001801)]"
  by code_simp


theorem get_current_user_no_sub_witness:
  "get_current_user sample_extern default_settings 1700000001000000
      (jwt_encode sample_extern [(''exp'', JNum 1700001801)] (SECRET_KEY default_settings)
         (ALGORITHM default_settings)) [alice_row] = Inl credentials_exception \<and>
   get_current_user sample_extern default_settings 1700000001000000
      (Unparsable ''garbage'') [alice_row] = Inl credentials_exception"
  by (rule get_current_user_no_sub [OF sample_decode_no_sub]) simp

subsection \<open>Registration and login\<close>

lemma select_single: "select_user_by_email db e = [usr] \<Longrightarrow> usr \<in> set db \<and> email usr = e"
proof -
  assume "select_user_by_email db e = [usr]"
  then have "usr \<in> set (filter (\<lambda>u. email u = e) db)"
    by (simp add: select_user_by_email_def)
  then show ?thesis by simp
qed

lemma register_Inr:
  assumes "register X E u db = (Inr r, db')"
  shows "(\<exists>e. validate_email X (uc_email u) = Some e \<and>
            r = \<lparr>r_email = e, r_id = uuid4 E, r_is_guest = False,
                 r_is_active = is_active_default X, r_created_at = utcnow E,
                 r_updated_at = utcnow E\<rparr>) \<and>
         uuid4 E \<notin> user_id ` set db \<and> uc_email u \<notin> email ` set db \<and>
         (\<exists>h. get_password_hash X (gensalt E) (uc_password u) = Inr h \<and>
            db' = db @ [\<lparr>user_id = uuid4 E, email = uc_email u, hashed_password = h,
                         is_guest = False, is_active = is_active_default X,
                         created_at = utcnow E, updated_at = utcnow E\<rparr>])"
proof -
  from assms have sel: "select_user_by_email db (uc_email u) = []"
    by (auto simp: register_def get_user_by_email_def scalar_one_or_none_def
        split: list.splits)
  then have ne: "uc_email u \<notin> email ` set db"
    by (simp add: select_none_iff)
  from sel assms have cu: "(case create_user X E u db of
        (Inl ex, db') \<Rightarrow> (Inl ex, db')
      | (Inr db_user, db') \<Rightarrow>
          (case from_orm X db_user of Inl ex \<Rightarrow> (Inl ex, db') | Inr r \<Rightarrow> (Inr r, db'))) =
      (Inr r, db')"
    by (simp add: register_def get_user_by_email_def scalar_one_or_none_def)
  then obtain h where h: "get_password_hash X (gensalt E) (uc_password u) = Inr h"
    by (cases "get_password_hash X (gensalt E) (uc_password u)")
      (simp_all add: create_user_def)
  from cu h show ?thesis
    using ne
    by (auto simp: create_user_def add_commit_def from_orm_def Let_def
        split: if_splits option.splits)
qed

lemma login_Inr:
  assumes "login X cfg t f db = Inr tok"
  shows "\<exists>usr\<in>set db. \<exists>e. email usr = username f \<and> validate_email X (email usr) = Some e \<and>
           tok = \<lparr>access_token =
                    jwt_encode X
                      [(''sub'', JStr (email usr)),
                       (''exp'', JNum (timegm (t + timedelta_minutes
                                                    (ACCESS_TOKEN_EXPIRE_MINUTES cfg))))]
                      (SECRET_KEY cfg) (ALGORITHM cfg),
                  token_type = ''bearer'',
                  token_user =
                    Some \<lparr>r_email = e, r_id = user_id usr,
                          r_is_guest = is_guest usr, r_is_active = is_active usr,
                          r_created_at = created_at usr,
                          r_updated_at = updated_at usr\<rparr>\<rparr>"
proof -
  from assms obtain usr where sel: "select_user_by_email db (username f) = [usr]"
    by (auto simp: login_def authenticate_user_def scalar_one_or_none_def
        split: list.splits sum.splits)
  then have mem: "usr \<in> set db" "email usr = username f"
    using select_single by blast+
  have tk: "create_access_token X cfg t [(''sub'', JStr (email usr))]
        (Some (timedelta_minutes (ACCESS_TOKEN_EXPIRE_MINUTES cfg))) =
      jwt_encode X
        [(''sub'', JStr (email usr)),
         (''exp'', JNum (timegm (t + timedelta_minutes (ACCESS_TOKEN_EXPIRE_MINUTES cfg))))]
        (SECRET_KEY cfg) (ALGORITHM cfg)"
    by (simp add: create_access_token_def)
  from assms sel have "\<exists>e. validate_email X (email usr) = Some e \<and>
           tok = \<lparr>access_token =
                    jwt_encode X
                      [(''sub'', JStr (email usr)),
                       (''exp'', JNum (timegm (t + timedelta_minutes
                                                    (ACCESS_TOKEN_EXPIRE_MINUTES cfg))))]
                      (SECRET_KEY cfg) (ALGORITHM cfg),
                  token_type = ''bearer'',
                  token_user =
                    Some \<lparr>r_email = e, r_id = user_id usr,
                          r_is_guest = is_guest usr, r_is_active = is_active usr,
                          r_created_at = created_at usr,
                          r_updated_at = updated_at usr\<rparr>\<rparr>"
    by (auto simp: login_def authenticate_user_def scalar_one_or_none_def from_orm_def tk
        Let_def split: sum.splits if_splits option.splits)
  with mem show ?thesis by blast
qed

text \<open>
  Claim C9: a \<open>register\<close> that succeeds answers with the \<open>UserResponse\<close> whose six
  fields are the email of the request as the validation of the response returns it
  (the email itself when it is in normalised form, as the field of a validated
  \<open>UserCreate\<close> is), the identifier generated in this call (one that no row of the
  store had), \<open>is_guest = False\<close>, and the bookkeeping values of the new row. The
  answer is the same for any other password and any other salt. A \<open>login\<close> that
  succeeds answers with a token whose claims are \<open>sub\<close> (the email of the row) and
  \<open>exp\<close>, the type \<open>bearer\<close>, and the same six fields of the user's row. Neither
  answer has a field for the password or for \<open>hashed_password\<close>, and neither depends
  on them.
\<close>

theorem register_login_public_view:
  "(register X E u db = (Inr r, db') \<longrightarrow>
      (\<exists>e. validate_email X (uc_email u) = Some e \<and>
         r = \<lparr>r_email = e, r_id = uuid4 E, r_is_guest = False,
              r_is_active = is_active_default X, r_created_at = utcnow E,
              r_updated_at = utcnow E\<rparr>) \<and>
      uuid4 E \<notin> user_id ` set db) \<and>
   (register X E u db = (Inr r, db') \<and> validate_email X (uc_email u) = Some (uc_email u) \<longrightarrow>
      r = \<lparr>r_email = uc_email u, r_id = uuid4 E, r_is_guest = False,
           r_is_active = is_active_default X, r_created_at = utcnow E,
           r_updated_at = utcnow E\<rparr>) \<and>
   (register X E u db = (Inr r, db') \<and>
    register X E2 \<lparr>uc_email = uc_email u, uc_password = p2\<rparr> db = (Inr r2, db2) \<and>
    uuid4 E2 = uuid4 E \<and> utcnow E2 = utcnow E \<longrightarrow> r2 = r) \<and>
   (login X cfg t f sdb = Inr tok \<longrightarrow>
      (\<exists>usr\<in>set sdb. \<exists>e. email usr = username f \<and> validate_email X (email usr) = Some e \<and>
         tok = \<lparr>access_token =
                  jwt_encode X
                    [(''sub'', JStr (email usr)),
                     (''exp'', JNum (timegm (t + timedelta_minutes
                                                  (ACCESS_TOKEN_EXPIRE_MINUTES cfg))))]
                    (SECRET_KEY cfg) (ALGORITHM cfg),
                token_type = ''bearer'',
                token_user =
                  Some \<lparr>r_email = e, r_id = user_id usr,
                        r_is_guest = is_guest usr, r_is_active = is_active usr,
                        r_created_at = created_at usr,
                        r_updated_at = updated_at usr\<rparr>\<rparr>))"
proof (intro conjI impI)
  assume a: "register X E u db = (Inr r, db')"
  from register_Inr [OF a]
  show "\<exists>e. validate_email X (uc_email u) = Some e \<and>
         r = \<lparr>r_email = e, r_id = uuid4 E, r_is_guest = False,
              r_is_active = is_active_default X, r_created_at = utcnow E,
              r_updated_at = utcnow E\<rparr>"
    by blast
  from register_Inr [OF a] show "uuid4 E \<notin> user_id ` set db" by blast
next
  assume a: "register X E u db = (Inr r, db') \<and>
    validate_email X (uc_email u) = Some (uc_email u)"
  then have r1: "register X E u db = (Inr r, db')"
    and v: "validate_email X (uc_email u) = Some (uc_email u)"
    by simp_all
  from register_Inr [OF r1] v
  show "r = \<lparr>r_email = uc_email u, r_id = uuid4 E, r_is_guest = False,
           r_is_active = is_active_default X, r_created_at = utcnow E,
           r_updated_at = utcnow E\<rparr>"
    by auto
next
  assume a: "register X E u db = (Inr r, db') \<and>
    register X E2 \<lparr>uc_email = uc_email u, uc_password = p2\<rparr> db = (Inr r2, db2) \<and>
    uuid4 E2 = uuid4 E \<and> utcnow E2 = utcnow E"
  then have r1: "register X E u db = (Inr r, db')"
    and r2: "register X E2 \<lparr>uc_email = uc_email u, uc_password = p2\<rparr> db = (Inr r2, db2)"
    and eq: "uuid4 E2 = uuid4 E" "utcnow E2 = utcnow E"
    by simp_all
  from register_Inr [OF r1] register_Inr [OF r2] eq show "r2 = r" by auto
next
  assume "login X cfg t f sdb = Inr tok"
  then show "\<exists>usr\<in>set sdb. \<exists>e. email usr = username f \<and>
         validate_email X (email usr) = Some e \<and>
         tok = \<lparr>access_token =
                  jwt_encode X
                    [(''sub'', JStr (email usr)),
                     (''exp'', JNum (timegm (t + timedelta_minutes
                                                  (ACCESS_TOKEN_EXPIRE_MINUTES cfg))))]
                    (SECRET_KEY cfg) (ALGORITHM cfg),
                token_type = ''bearer'',
                token_user =
                  Some \<lparr>r_email = e, r_id = user_id usr,
                        r_is_guest = is_guest usr, r_is_active = is_active usr,
                        r_created_at = created_at usr,
                        r_updated_at = updated_at usr\<rparr>\<rparr>"
    by (rule login_Inr)
qed

lemma sample_register:
  "register sample_extern sample_env alice [] = (Inr alice_view, [alice_row])"
  by code_simp

lemma sample_login:
  "login sample_extern default_settings 1700000001000000 alice_form [alice_row] =
     Inr alice_login"
  by code_simp

lemma sample_alice_normal:
  "validate_email sample_extern (uc_email alice) = Some (uc_email alice)"
  by code_simp

theorem register_login_public_view_witness:
  "register sample_extern sample_env alice [] = (Inr alice_view, [alice_row]) \<and>
   alice_view =
     \<lparr>r_email = uc_email alice, r_id = uuid4 sample_env, r_is_guest = False,
      r_is_active = is_active_default sample_extern, r_created_at = utcnow sample_env,
      r_updated_at = utcnow sample_env\<rparr> \<and>
   uuid4 sample_env \<notin> user_id ` set ([] :: user list) \<and>
   login sample_extern default_settings 1700000001000000 alice_form [alice_row] =
     Inr alice_login \<and>
   (\<exists>usr\<in>set [alice_row]. \<exists>e. email usr = username alice_form \<and>
      validate_email sample_extern (email usr) = Some e \<and>
      alice_login =
        \<lparr>access_token =
           jwt_encode sample_extern
             [(''sub'', JStr (email usr)),
              (''exp'', JNum (timegm (1700000001000000 + timedelta_minutes
                               (ACCESS_TOKEN_EXPIRE_MINUTES default_settings))))]
             (SECRET_KEY default_settings) (ALGORITHM default_settings),
         token_type = ''bearer'',
         token_user =
           Some \<lparr>r_email = e, r_id = user_id usr,
                 r_is_guest = is_guest usr, r_is_active = is_active usr,
                 r_created_at = created_at usr,
                 r_updated_at = updated_at usr\<rparr>\<rparr>)"
proof -
  note fresh = register_login_public_view [THEN conjunct1, THEN mp, OF sample_register,
      THEN conjunct2]
  note view = register_login_public_view [THEN conjunct2, THEN conjunct1, THEN mp,
      OF conjI, OF sample_register sample_alice_normal]
  note lgn = register_login_public_view [THEN conjunct2, THEN conjunct2, THEN conjunct2,
      THEN mp, OF sample_login]
  show ?thesis
    by (intro conjI) (rule sample_register, rule view, rule fresh, rule sample_login,
        rule lgn)
qed

subsection \<open>Register, then login\<close>









end
